theory Spec2Isabelle
  imports Main "HOL-Library.Word" "HOL-Library.Multiset" "HOL-Library.Product_Lexorder"
    "HOL-Library.Signed_Division"
begin

unbundle bit_operations_syntax

section \<open>HybridSimulatorImpl: a shallow embedding of hybrid-simulator-impl.cc\<close>

text \<open>
  The definitions below follow \<^verbatim>\<open>src/mpi/model/hybrid-simulator-impl.cc\<close> function by
  function. Simulated time (\<^verbatim>\<open>Time\<close>, a count of ticks held in a signed 64-bit integer)
  is an \<open>int\<close>; \<^verbatim>\<open>uint32_t\<close> values are \<open>32 word\<close>, so that their arithmetic wraps as in
  the source.
\<close>

type_synonym Time = int
type_synonym uint32 = "32 word"
type_synonym uint64 = "64 word"

subsection \<open>Event identifiers and the destroy queue\<close>

text \<open>
  An \<^verbatim>\<open>EventId\<close> holds a \<^verbatim>\<open>Ptr<EventImpl>\<close> (here the address of the object, \<open>None\<close>
  for \<^verbatim>\<open>nullptr\<close>), a timestamp, a context and a uid. The source compares two ids with
  \<^verbatim>\<open>operator==\<close>, which in ns-3 compares these four fields; that is the equality of the
  record.
\<close>

type_synonym addr = nat

record EventId =
  m_eventImpl :: "addr option"
  m_ts :: uint64
  m_context :: uint32
  m_uid :: uint32

text \<open>
  Modelled from the spec: the sentinel uid \<^verbatim>\<open>EventId::DESTROY\<close> that marks teardown events.
  The enumeration that declares it is not among the sources; the value is the one of
  ns-3's \<^verbatim>\<open>EventId::UID\<close>, and nothing below depends on which value it is.
\<close>

definition DESTROY :: uint32 where
  "DESTROY = 2"

text \<open>
  The part of the simulator's state that the event-id operations read and write:
  the member \<^verbatim>\<open>m_destroyEvents\<close> (a \<^verbatim>\<open>std::list<EventId>\<close>), the cancelled flag of every
  \<^verbatim>\<open>EventImpl\<close> object (the objects are shared through their pointers, so the flags live
  in a store indexed by address), and the logical process that
  \<^verbatim>\<open>MtpInterface::GetSystem()\<close> returns. The class \<^verbatim>\<open>LogicalProcess\<close> is not among the
  sources: its state is the type parameter \<open>'lp\<close> and its member functions are parameters
  of the functions that call them.
\<close>

record 'lp sim =
  m_destroyEvents :: "EventId list"
  IsCancelled :: "addr \<Rightarrow> bool"
  GetSystem :: "'lp"

text \<open>
  The loop of \<^verbatim>\<open>IsExpired\<close> over the destroy queue:
  \<^verbatim>\<open>for (i = begin; i != end; i++) if (*i == id) return false;\<close> followed by
  \<^verbatim>\<open>return true\<close>.
\<close>

fun IsExpired_loop :: "EventId list \<Rightarrow> EventId \<Rightarrow> bool" where
  "IsExpired_loop [] ev = True"
| "IsExpired_loop (i # rest) ev = (if i = ev then False else IsExpired_loop rest ev)"

definition IsExpired :: "('lp \<Rightarrow> EventId \<Rightarrow> bool) \<Rightarrow> 'lp sim \<Rightarrow> EventId \<Rightarrow> bool" where
  "IsExpired lp_IsExpired s ev =
     (if m_uid ev = DESTROY then
        (if (case m_eventImpl ev of None \<Rightarrow> True | Some a \<Rightarrow> IsCancelled s a) then True
         else IsExpired_loop (m_destroyEvents s) ev)
      else lp_IsExpired (GetSystem s) ev)"

text \<open>
  The loop of \<^verbatim>\<open>Remove\<close>: erase the first entry equal to the id, then \<^verbatim>\<open>break\<close>.
\<close>

fun Remove_loop :: "EventId list \<Rightarrow> EventId \<Rightarrow> EventId list" where
  "Remove_loop [] ev = []"
| "Remove_loop (i # rest) ev = (if i = ev then rest else i # Remove_loop rest ev)"

definition Remove :: "('lp \<Rightarrow> EventId \<Rightarrow> 'lp) \<Rightarrow> 'lp sim \<Rightarrow> EventId \<Rightarrow> 'lp sim" where
  "Remove lp_Remove s ev =
     (if m_uid ev = DESTROY then s\<lparr>m_destroyEvents := Remove_loop (m_destroyEvents s) ev\<rparr>
      else s\<lparr>GetSystem := lp_Remove (GetSystem s) ev\<rparr>)"

definition GetDelayLeft ::
  "('lp \<Rightarrow> EventId \<Rightarrow> bool) \<Rightarrow> ('lp \<Rightarrow> EventId \<Rightarrow> Time) \<Rightarrow> 'lp sim \<Rightarrow> EventId \<Rightarrow> Time" where
  "GetDelayLeft lp_IsExpired lp_GetDelayLeft s ev =
     (if IsExpired lp_IsExpired s ev then 0 else lp_GetDelayLeft (GetSystem s) ev)"

subsection \<open>Destroy\<close>

datatype error = NullPointer | NodeIndexOutOfRange | BadArrayNewLength




subsection \<open>The Run loop: LBTS reduction and the round\<close>

text \<open>
  The record that every rank contributes to the all-gather (class \<^verbatim>\<open>LbtsMessage\<close>, built
  in \<^verbatim>\<open>Run\<close> from the receive count, the transmit count, the rank, the local finished flag
  and the local smallest time).
\<close>

record LbtsMessage =
  m_rxCount :: uint32
  m_txCount :: uint32
  m_myId :: uint32
  m_isFinished :: bool
  m_smallestTime :: Time

text \<open>
  The values that the reduction over \<^verbatim>\<open>m_pLBTS\<close> computes: the member \<^verbatim>\<open>m_smallestTime\<close>,
  the locals \<^verbatim>\<open>totRx\<close> and \<^verbatim>\<open>totTx\<close> (both \<^verbatim>\<open>uint32_t\<close>: the additions wrap) and the member
  \<^verbatim>\<open>m_globalFinished\<close> as it is after the \<^verbatim>\<open>for\<close> loop.
\<close>

record reduction =
  r_smallestTime :: Time
  r_totRx :: uint32
  r_totTx :: uint32
  r_globalFinished :: bool

text \<open>The body of \<^verbatim>\<open>for (uint32_t i = 1; i < m_systemCount; ++i)\<close>.\<close>

definition reduce_step :: "LbtsMessage list \<Rightarrow> nat \<Rightarrow> reduction \<Rightarrow> reduction" where
  "reduce_step m_pLBTS i r =
     \<lparr>r_smallestTime =
        (if m_smallestTime (m_pLBTS ! i) < r_smallestTime r then m_smallestTime (m_pLBTS ! i)
         else r_smallestTime r),
      r_totRx = r_totRx r + m_rxCount (m_pLBTS ! i),
      r_totTx = r_totTx r + m_txCount (m_pLBTS ! i),
      r_globalFinished = (r_globalFinished r \<and> m_isFinished (m_pLBTS ! i))\<rparr>"

text \<open>
  The reduction: the four values start from \<^verbatim>\<open>m_pLBTS[0]\<close> and the loop runs over the
  indices \<open>1\<close> to \<^verbatim>\<open>m_systemCount - 1\<close>. The array is allocated by the constructor with
  \<^verbatim>\<open>m_systemCount\<close> entries, so \<^verbatim>\<open>m_systemCount\<close> is the length of the list.
\<close>

definition reduce_all :: "LbtsMessage list \<Rightarrow> reduction" where
  "reduce_all m_pLBTS =
     fold (reduce_step m_pLBTS) [1..<length m_pLBTS]
       \<lparr>r_smallestTime = m_smallestTime (m_pLBTS ! 0),
        r_totRx = m_rxCount (m_pLBTS ! 0),
        r_totTx = m_txCount (m_pLBTS ! 0),
        r_globalFinished = m_isFinished (m_pLBTS ! 0)\<rparr>"

text \<open>
  The interfaces that the loop calls (\<^verbatim>\<open>GrantedTimeWindowMpiInterface\<close> and \<^verbatim>\<open>MtpInterface\<close>)
  are not among the sources. Their state is the type parameter \<open>'d\<close> and their functions
  are the fields of this record. \<open>ReceiveMessages\<close> stands for the three calls that open
  an iteration: \<^verbatim>\<open>ReceiveMessages()\<close>, \<^verbatim>\<open>TestSendComplete()\<close> and \<^verbatim>\<open>CalculateSmallestTime()\<close>.
\<close>

record 'd interfaces =
  ReceiveMessages :: "'d \<Rightarrow> 'd"
  GetRxCount :: "'d \<Rightarrow> uint32"
  GetTxCount :: "'d \<Rightarrow> uint32"
  isFinished :: "'d \<Rightarrow> bool"
  GetSmallestTime :: "'d \<Rightarrow> Time"
  SetSmallestTime :: "Time \<Rightarrow> 'd \<Rightarrow> 'd"
  ProcessOneRound :: "'d \<Rightarrow> 'd"

text \<open>
  The message \<^verbatim>\<open>lMsg\<close> of this rank, and the array after \<^verbatim>\<open>MPI_Allgather\<close>: the entries
  of the other ranks are an input of the iteration (\<open>peers\<close>, one entry per rank), and
  the entry of this rank is \<^verbatim>\<open>lMsg\<close>.
\<close>

definition lMsg :: "'d interfaces \<Rightarrow> nat \<Rightarrow> 'd \<Rightarrow> LbtsMessage" where
  "lMsg M myId d =
     \<lparr>m_rxCount = GetRxCount M d, m_txCount = GetTxCount M d, m_myId = of_nat myId,
      m_isFinished = isFinished M d, m_smallestTime = GetSmallestTime M d\<rparr>"

definition Allgather :: "'d interfaces \<Rightarrow> nat \<Rightarrow> LbtsMessage list \<Rightarrow> 'd \<Rightarrow> LbtsMessage list" where
  "Allgather M myId peers d = peers[myId := lMsg M myId d]"

text \<open>
  What one iteration of the loop did: the grant given to \<^verbatim>\<open>SetSmallestTime\<close>, the two
  totals, the value of \<^verbatim>\<open>IsLocalFinished()\<close> in the condition of the \<^verbatim>\<open>if\<close>, whether
  \<^verbatim>\<open>ProcessOneRound()\<close> was called, and \<^verbatim>\<open>m_globalFinished\<close> at the end of the iteration.
\<close>

record iteration =
  it_grant :: Time
  it_totRx :: uint32
  it_totTx :: uint32
  it_localFinished :: bool
  it_processed :: bool
  it_globalFinished :: bool

definition Run_iteration ::
  "'d interfaces \<Rightarrow> nat \<Rightarrow> LbtsMessage list \<Rightarrow> 'd \<Rightarrow> 'd \<times> iteration" where
  "Run_iteration M myId peers d0 =
     (let d1 = ReceiveMessages M d0;
          m_pLBTS = Allgather M myId peers d1;
          r = reduce_all m_pLBTS;
          d2 = SetSmallestTime M (r_smallestTime r) d1;
          globalFinished = (r_globalFinished r \<and> r_totRx r = r_totTx r);
          localFinished = isFinished M d2
      in if r_totRx r = r_totTx r \<and> \<not> localFinished
         then (ProcessOneRound M d2,
               \<lparr>it_grant = r_smallestTime r, it_totRx = r_totRx r, it_totTx = r_totTx r,
                it_localFinished = localFinished, it_processed = True,
                it_globalFinished = globalFinished\<rparr>)
         else (d2,
               \<lparr>it_grant = r_smallestTime r, it_totRx = r_totRx r, it_totTx = r_totTx r,
                it_localFinished = localFinished, it_processed = False,
                it_globalFinished = globalFinished\<rparr>))"

text \<open>
  The loop \<^verbatim>\<open>while (!m_globalFinished)\<close>, entered with \<^verbatim>\<open>m_globalFinished = false\<close>. What
  the other ranks contribute is outside this process: the list gives their entries for
  the successive iterations. The loop ends when an iteration sets \<^verbatim>\<open>m_globalFinished\<close>;
  when the list ends first, the result is the run up to that iteration.
\<close>

fun Run_loop ::
  "'d interfaces \<Rightarrow> nat \<Rightarrow> LbtsMessage list list \<Rightarrow> 'd \<Rightarrow> iteration list \<Rightarrow> 'd \<times> iteration list"
where
  "Run_loop M myId [] d sofar = (d, sofar)"
| "Run_loop M myId (peers # later) d sofar =
     (case Run_iteration M myId peers d of
        (d', it) \<Rightarrow>
          if it_globalFinished it then (d', sofar @ [it])
          else Run_loop M myId later d' (sofar @ [it]))"

text \<open>
  The loop body as a function of the message it reads; used to state what the loop
  computes.
\<close>

definition reduce_msg :: "LbtsMessage \<Rightarrow> reduction \<Rightarrow> reduction" where
  "reduce_msg m r =
     \<lparr>r_smallestTime = min (m_smallestTime m) (r_smallestTime r),
      r_totRx = r_totRx r + m_rxCount m,
      r_totTx = r_totTx r + m_txCount m,
      r_globalFinished = (r_globalFinished r \<and> m_isFinished m)\<rparr>"

subsection \<open>Partition: the topology\<close>

text \<open>
  What \<^verbatim>\<open>Partition\<close> reads of the topology. A channel gives its \<^verbatim>\<open>Delay\<close> attribute and, for
  each of its devices, the id of the device's node (\<^verbatim>\<open>channel->GetDevice(j)->GetNode()\<close>);
  \<open>ch_id\<close> is the identity of the channel object, which the source never reads. A device
  gives its channel (\<open>None\<close> for a null pointer) and \<^verbatim>\<open>IsPointToPoint()\<close>. A node gives
  its system id and its devices. The nodes are those of \<^verbatim>\<open>NodeContainer::GetGlobal()\<close>, in
  the order of the node list, so the id of a node (\<^verbatim>\<open>GetId()\<close>) is its index in the list.
\<close>

record Channel =
  ch_id :: nat
  ch_Delay :: Time
  ch_nodes :: "nat list"

record NetDevice =
  GetChannel :: "Channel option"
  IsPointToPoint :: bool

record Node =
  GetSystemId :: uint32
  devices :: "NetDevice list"

subsection \<open>Partition: the automatic lookahead\<close>

text \<open>
  The first block of \<^verbatim>\<open>Partition\<close>, run when \<^verbatim>\<open>m_minLookahead == TimeStep(0)\<close>. For every
  node whose system id equals \<^verbatim>\<open>m_myId\<close> and every device of it that has a channel and is
  point-to-point, the channel's delay is pushed on \<^verbatim>\<open>delays\<close>. The block follows the
  allocation of \<^verbatim>\<open>visited\<close>, which throws on an empty node list (see \<open>Partition_bfs\<close>
  below): it is reached with at least one node.
\<close>

definition device_delay :: "NetDevice \<Rightarrow> Time list" where
  "device_delay dev =
     (case GetChannel dev of
        None \<Rightarrow> []
      | Some channel \<Rightarrow> if IsPointToPoint dev then [ch_Delay channel] else [])"

definition collect_delays :: "uint32 \<Rightarrow> Node list \<Rightarrow> Time list" where
  "collect_delays myId nodes =
     concat (map (\<lambda>node. if GetSystemId node = myId
                          then concat (map device_delay (devices node)) else []) nodes)"

text \<open>
  \<^verbatim>\<open>Time\<close> adds two tick counts in a signed 64-bit integer: a sum outside the range wraps
  around.
\<close>

definition Time_plus :: "Time \<Rightarrow> Time \<Rightarrow> Time" where
  "Time_plus a b = sint (word_of_int (a + b) :: 64 word)"

text \<open>
  The vector is sorted and the lookahead is its middle element, or the sum of the two
  middle elements divided by two. \<^verbatim>\<open>Time\<close> divides its 64-bit tick count as C++ does,
  rounding towards zero (\<open>sdiv\<close>).
\<close>

definition median :: "Time list \<Rightarrow> Time" where
  "median delays0 =
     (let delays = sort delays0 in
      if delays = [] then 0
      else if length delays mod 2 = 1 then delays ! (length delays div 2)
      else Time_plus (delays ! (length delays div 2 - 1)) (delays ! (length delays div 2)) sdiv 2)"

definition Partition_lookahead :: "uint32 \<Rightarrow> Node list \<Rightarrow> Time \<Rightarrow> Time" where
  "Partition_lookahead myId nodes m_minLookahead =
     (if m_minLookahead = 0 then median (collect_delays myId nodes) else m_minLookahead)"

text \<open>
  The same collection as the specification words it: the delay of every point-to-point
  link that has an end on a locally owned node, each link once. A link is a channel
  object, identified by \<open>ch_id\<close>.
\<close>

definition device_link :: "NetDevice \<Rightarrow> (nat \<times> Time) list" where
  "device_link dev =
     (case GetChannel dev of
        None \<Rightarrow> []
      | Some channel \<Rightarrow> if IsPointToPoint dev then [(ch_id channel, ch_Delay channel)] else [])"

definition spec_link_delays :: "uint32 \<Rightarrow> Node list \<Rightarrow> Time list" where
  "spec_link_delays myId nodes =
     map snd (remdups (concat (map (\<lambda>node. if GetSystemId node = myId
                          then concat (map device_link (devices node)) else []) nodes)))"

subsection \<open>Partition: the breadth-first search\<close>

text \<open>
  The innermost loop, over the devices of a channel: the node at the other end is
  pushed on the queue when \<^verbatim>\<open>!visited[remote->GetId()] && node->GetSystemId() == m_myId\<close>.
  The second operand reads the system id of \<^verbatim>\<open>node\<close>, the node that was just popped, not
  of \<^verbatim>\<open>remote\<close>; \<open>nodeSystemId\<close> is that value.
\<close>

definition push_adjacent :: "uint32 \<Rightarrow> bool list \<Rightarrow> uint32 \<Rightarrow> Channel \<Rightarrow> nat list \<Rightarrow> nat list" where
  "push_adjacent myId visited nodeSystemId channel q =
     fold (\<lambda>remote q. if \<not> visited ! remote \<and> nodeSystemId = myId then q @ [remote] else q)
       (ch_nodes channel) q"

text \<open>
  The loop body over the devices of the popped node: a device without a channel is
  skipped, a point-to-point device whose channel delay is at least the lookahead is
  skipped (the cut), and otherwise the channel's nodes are examined.
\<close>

definition scan_device ::
  "uint32 \<Rightarrow> Time \<Rightarrow> bool list \<Rightarrow> uint32 \<Rightarrow> NetDevice \<Rightarrow> nat list \<Rightarrow> nat list" where
  "scan_device myId m_minLookahead visited nodeSystemId dev q =
     (case GetChannel dev of
        None \<Rightarrow> q
      | Some channel \<Rightarrow>
          if IsPointToPoint dev \<and> ch_Delay channel \<ge> m_minLookahead then q
          else push_adjacent myId visited nodeSystemId channel q)"

text \<open>
  The loop \<^verbatim>\<open>while (!q.empty())\<close>: pop the front, mark it visited, set its system id to
  \<^verbatim>\<open>localSystemId << 16 | m_myId\<close> and scan its devices. A node can be in the queue more
  than once, and the loop is a partial function.
\<close>

partial_function (option) bfs ::
  "uint32 \<Rightarrow> Time \<Rightarrow> uint32 \<Rightarrow> Node list \<Rightarrow> bool list \<Rightarrow> nat list \<Rightarrow> (Node list \<times> bool list) option"
where
  "bfs myId m_minLookahead localSystemId nodes visited q =
     (case q of
        [] \<Rightarrow> Some (nodes, visited)
      | n # rest \<Rightarrow>
          (let visited1 = visited[n := True];
               nodes1 = nodes[n := (nodes ! n)\<lparr>GetSystemId := push_bit 16 localSystemId OR myId\<rparr>];
               q1 = fold (scan_device myId m_minLookahead visited1 (GetSystemId (nodes1 ! n)))
                      (devices (nodes1 ! n)) rest
           in bfs myId m_minLookahead localSystemId nodes1 visited1 q1))"

text \<open>
  The outer loop over the nodes: an unvisited node whose system id equals \<^verbatim>\<open>m_myId\<close>
  starts a search with the next \<^verbatim>\<open>localSystemId\<close>. The state is \<^verbatim>\<open>localSystemId\<close>, the nodes
  and \<^verbatim>\<open>visited\<close>.
\<close>

fun Partition_loop ::
  "uint32 \<Rightarrow> Time \<Rightarrow> nat list \<Rightarrow> uint32 \<times> Node list \<times> bool list \<Rightarrow>
   (uint32 \<times> Node list \<times> bool list) option" where
  "Partition_loop myId m_minLookahead [] st = Some st"
| "Partition_loop myId m_minLookahead (i # later) (localSystemId, nodes, visited) =
     (if \<not> visited ! i \<and> GetSystemId (nodes ! i) = myId then
        (case bfs myId m_minLookahead (localSystemId + 1) nodes visited [i] of
           None \<Rightarrow> None
         | Some (nodes1, visited1) \<Rightarrow>
             Partition_loop myId m_minLookahead later (localSystemId + 1, nodes1, visited1))
      else Partition_loop myId m_minLookahead later (localSystemId, nodes, visited))"

text \<open>
  The search part of \<^verbatim>\<open>Partition\<close>. \<^verbatim>\<open>visited\<close> is allocated by
  \<^verbatim>\<open>new bool[nodes.GetN()]{false}\<close>: for an empty node list the initialiser has more
  elements than the array and the expression throws \<^verbatim>\<open>std::bad_array_new_length\<close>;
  otherwise \<^verbatim>\<open>visited\<close> starts all false. \<^verbatim>\<open>localSystemId\<close> starts at 0. The result is
  \<^verbatim>\<open>systemCount\<close>, the number given to \<^verbatim>\<open>MtpInterface::EnableNew\<close>, and the nodes with
  their new system ids.
\<close>

definition Partition_bfs ::
  "uint32 \<Rightarrow> Time \<Rightarrow> Node list \<Rightarrow> (error + uint32 \<times> Node list) option" where
  "Partition_bfs myId m_minLookahead nodes =
     (if nodes = [] then Some (Inl BadArrayNewLength)
      else (case Partition_loop myId m_minLookahead [0..<length nodes]
                    (0, nodes, replicate (length nodes) False) of
              None \<Rightarrow> None
            | Some (systemCount, nodes1, visited1) \<Rightarrow> Some (Inr (systemCount, nodes1))))"




subsection \<open>Partition: the migration of events\<close>

text \<open>
  An entry of a scheduler (\<^verbatim>\<open>Scheduler::Event\<close>): the event and its key, which holds the
  timestamp, the uid (the sequence number of the event in its logical process) and
  the context.
\<close>

record Event =
  impl :: addr
  key_ts :: uint64
  key_uid :: uint32
  key_context :: uint32

text \<open>
  Modelled from the spec: the distinguished context value \<^verbatim>\<open>NO_CONTEXT\<close>
  (\<^verbatim>\<open>Simulator::NO_CONTEXT\<close>), whose declaration is not among the sources; the value is
  the one of ns-3.
\<close>

definition NO_CONTEXT :: uint32 where
  "NO_CONTEXT = 0xffffffff"

text \<open>
  Modelled from the spec: the class \<^verbatim>\<open>Scheduler\<close> is not among the sources. The
  specification gives its contract: a priority queue ordered by (timestamp, sequence)
  with insert, remove-min and is-empty. A scheduler is the list of its events in the
  order of their insertion; \<open>RemoveNext\<close> takes out the first event whose key
  (timestamp, then uid) is least.
\<close>

type_synonym Scheduler = "Event list"

definition key :: "Event \<Rightarrow> uint64 \<times> uint32" where
  "key ev = (key_ts ev, key_uid ev)"

definition IsEmpty :: "Scheduler \<Rightarrow> bool" where
  "IsEmpty sch = (sch = [])"

definition Insert :: "Event \<Rightarrow> Scheduler \<Rightarrow> Scheduler" where
  "Insert ev sch = sch @ [ev]"

definition RemoveNext :: "Scheduler \<Rightarrow> Event \<times> Scheduler" where
  "RemoveNext sch = (let ev = arg_min_list key sch in (ev, remove1 ev sch))"

text \<open>
  The first loop of the migration: every event of \<^verbatim>\<open>oldEvents\<close>, the scheduler of the
  logical process that \<^verbatim>\<open>MtpInterface::GetSystem()\<close> returns, is removed and inserted in
  the new scheduler \<^verbatim>\<open>eventsToBeTransferred\<close>.
\<close>

function transfer :: "Scheduler \<Rightarrow> Scheduler \<Rightarrow> Scheduler" where
  "transfer oldEvents eventsToBeTransferred =
     (if IsEmpty oldEvents then eventsToBeTransferred
      else (case RemoveNext oldEvents of
              (next, rest) \<Rightarrow> transfer rest (Insert next eventsToBeTransferred)))"
  by pat_completeness auto
termination
proof (relation "measure (\<lambda>(oldEvents, eventsToBeTransferred). length oldEvents)")
  show "wf (measure (\<lambda>(oldEvents, eventsToBeTransferred). length oldEvents))"
    by simp
next
  fix oldEvents eventsToBeTransferred :: Scheduler and x y
  assume ne: "\<not> IsEmpty oldEvents" and r: "(x, y) = RemoveNext oldEvents"
  from ne have "arg_min_list key oldEvents \<in> set oldEvents"
    by (simp add: IsEmpty_def arg_min_list_in)
  with ne r have "length y < length oldEvents"
    by (simp add: RemoveNext_def Let_def IsEmpty_def length_remove1)
  then show "((y, Insert x eventsToBeTransferred), oldEvents, eventsToBeTransferred)
               \<in> measure (\<lambda>(oldEvents, eventsToBeTransferred). length oldEvents)"
    by simp
qed

text \<open>
  The migration acts on the logical processes only through three member functions of
  \<^verbatim>\<open>LogicalProcess\<close>, which is not among the sources. The model records the calls: the
  logical process called (\<open>CurrentLP\<close> is \<^verbatim>\<open>MtpInterface::GetSystem()\<close>, \<open>LP i\<close> is
  \<^verbatim>\<open>MtpInterface::GetSystem(i)\<close>) and the arguments. \<open>Call_InvokeNow p ev\<close> is
  \<^verbatim>\<open>p->InvokeNow(ev)\<close>, \<open>Call_Schedule p delay event\<close> is \<^verbatim>\<open>p->Schedule(delay, event)\<close> and
  \<open>Call_ScheduleWithContext p target context delay event\<close> is
  \<^verbatim>\<open>p->ScheduleWithContext(target, context, delay, event)\<close>.
\<close>

datatype lp_ref = CurrentLP | LP uint32

datatype call =
    Call_InvokeNow lp_ref Event
  | Call_Schedule lp_ref Time addr
  | Call_ScheduleWithContext lp_ref lp_ref uint32 Time addr

text \<open>
  \<^verbatim>\<open>TimeStep\<close> makes a \<^verbatim>\<open>Time\<close> of a 64-bit unsigned tick count; the count is stored in a
  signed 64-bit integer.
\<close>

definition TimeStep :: "uint64 \<Rightarrow> Time" where
  "TimeStep ts = sint ts"

text \<open>
  \<^verbatim>\<open>NodeList::GetNode(n)\<close> is the node of index \<open>n\<close>; ns-3 asserts that the index is in
  range, which is the result \<open>None\<close> here.
\<close>

definition GetNode :: "Node list \<Rightarrow> uint32 \<Rightarrow> Node option" where
  "GetNode nodes n = (if unat n < length nodes then Some (nodes ! unat n) else None)"

text \<open>
  \<^verbatim>\<open>HybridSimulatorImpl::Schedule\<close> and \<^verbatim>\<open>HybridSimulatorImpl::ScheduleWithContext\<close>, as the
  calls they make. \<open>GetSize\<close> is the value of \<^verbatim>\<open>MtpInterface::GetSize()\<close>.
\<close>

definition Schedule :: "Time \<Rightarrow> addr \<Rightarrow> call" where
  "Schedule delay event = Call_Schedule CurrentLP delay event"

definition ScheduleWithContext :: "nat \<Rightarrow> Node list \<Rightarrow> uint32 \<Rightarrow> Time \<Rightarrow> addr \<Rightarrow> error + call" where
  "ScheduleWithContext GetSize nodes context delay event =
     (if GetSize = 1 then Inr (Call_ScheduleWithContext CurrentLP CurrentLP context delay event)
      else (case GetNode nodes context of
              None \<Rightarrow> Inl NodeIndexOutOfRange
            | Some node \<Rightarrow>
                Inr (Call_ScheduleWithContext CurrentLP (LP (drop_bit 16 (GetSystemId node)))
                       context delay event)))"

text \<open>
  The body of the second loop, for one event. The nodes are read after the search has
  set their system ids.
\<close>

definition migrate_event :: "nat \<Rightarrow> Node list \<Rightarrow> Event \<Rightarrow> error + call" where
  "migrate_event GetSize nodes ev =
     (if key_ts ev = 0 then
        (if key_context ev = NO_CONTEXT then Inr (Call_InvokeNow (LP 0) ev)
         else (case GetNode nodes (key_context ev) of
                 None \<Rightarrow> Inl NodeIndexOutOfRange
               | Some node \<Rightarrow> Inr (Call_InvokeNow (LP (drop_bit 16 (GetSystemId node))) ev)))
      else if key_context ev = NO_CONTEXT then Inr (Schedule (TimeStep (key_ts ev)) (impl ev))
      else ScheduleWithContext GetSize nodes (key_context ev) (TimeStep (key_ts ev)) (impl ev))"

text \<open>
  The second loop: the events of \<^verbatim>\<open>eventsToBeTransferred\<close> are removed one by one and
  handled; \<open>calls\<close> collects the calls made so far. A failed assertion ends the loop.
\<close>

function migrate_loop :: "nat \<Rightarrow> Node list \<Rightarrow> Scheduler \<Rightarrow> call list \<Rightarrow> error + call list" where
  "migrate_loop GetSize nodes eventsToBeTransferred calls =
     (if IsEmpty eventsToBeTransferred then Inr calls
      else (case RemoveNext eventsToBeTransferred of
              (ev, rest) \<Rightarrow>
                (case migrate_event GetSize nodes ev of
                   Inl e \<Rightarrow> Inl e
                 | Inr c \<Rightarrow> migrate_loop GetSize nodes rest (calls @ [c]))))"
  by pat_completeness auto
termination
proof (relation "measure (\<lambda>(GetSize, nodes, eventsToBeTransferred, calls). length eventsToBeTransferred)")
  show "wf (measure (\<lambda>(GetSize, nodes, eventsToBeTransferred, calls). length eventsToBeTransferred))"
    by simp
next
  fix GetSize :: nat and nodes :: "Node list" and eventsToBeTransferred :: Scheduler
    and calls :: "call list" and x y c
  assume ne: "\<not> IsEmpty eventsToBeTransferred" and r: "(x, y) = RemoveNext eventsToBeTransferred"
  from ne have "arg_min_list key eventsToBeTransferred \<in> set eventsToBeTransferred"
    by (simp add: IsEmpty_def arg_min_list_in)
  with ne r have "length y < length eventsToBeTransferred"
    by (simp add: RemoveNext_def Let_def IsEmpty_def length_remove1)
  then show "((GetSize, nodes, y, calls @ [c]), GetSize, nodes, eventsToBeTransferred, calls)
               \<in> measure (\<lambda>(GetSize, nodes, eventsToBeTransferred, calls). length eventsToBeTransferred)"
    by simp
qed

definition Partition_migrate :: "nat \<Rightarrow> Node list \<Rightarrow> Scheduler \<Rightarrow> error + call list" where
  "Partition_migrate GetSize nodes oldEvents = migrate_loop GetSize nodes (transfer oldEvents []) []"

text \<open>
  The order in which repeated \<open>RemoveNext\<close> empties a scheduler.
\<close>

function drain :: "Scheduler \<Rightarrow> Event list" where
  "drain sch =
     (if IsEmpty sch then [] else (case RemoveNext sch of (ev, rest) \<Rightarrow> ev # drain rest))"
  by pat_completeness auto
termination
proof (relation "measure length")
  show "wf (measure length)" by simp
next
  fix sch :: Scheduler and x y
  assume ne: "\<not> IsEmpty sch" and r: "(x, y) = RemoveNext sch"
  from ne have "arg_min_list key sch \<in> set sch"
    by (simp add: IsEmpty_def arg_min_list_in)
  with ne r have "length y < length sch"
    by (simp add: RemoveNext_def Let_def IsEmpty_def length_remove1)
  then show "(y, sch) \<in> measure length"
    by simp
qed

text \<open>
  The defining equations of the three loops unfold without end; they are used by
  explicit substitution only.
\<close>

declare transfer.simps [simp del] migrate_loop.simps [simp del] drain.simps [simp del]

section \<open>Properties\<close>

subsection \<open>Event identifiers\<close>

lemma IsExpired_loop_iff: "IsExpired_loop q ev = (ev \<notin> set q)"
  by (induction q) auto

lemma Remove_loop_remove1: "Remove_loop q ev = remove1 ev q"
  by (induction q) auto

lemma remove1_same_iff: "(remove1 x xs = xs) = (x \<notin> set xs)"
proof
  assume "remove1 x xs = xs"
  then have len: "length (remove1 x xs) = length xs" by simp
  show "x \<notin> set xs"
  proof
    assume mem: "x \<in> set xs"
    then have pos: "0 < length xs" by (rule length_pos_if_in_set)
    from mem have "length (remove1 x xs) = length xs - 1" by (simp add: length_remove1)
    with len pos show False by arith
  qed
next
  assume "x \<notin> set xs"
  then show "remove1 x xs = xs" by (rule remove1_idem)
qed

lemma remove1_takeWhile_dropWhile:
  "remove1 x xs = takeWhile (\<lambda>i. i \<noteq> x) xs @ drop 1 (dropWhile (\<lambda>i. i \<noteq> x) xs)"
  by (induction xs) auto

lemma count_list_remove1:
  "count_list (remove1 x xs) x = count_list xs x - 1"
  by (induction xs) auto

lemma count_list_0_iff': "(x \<notin> set xs) = (count_list xs x = 0)"
  by (induction xs) auto

text \<open>
  C8. For an id whose uid is \<open>DESTROY\<close>, \<open>IsExpired\<close> answers true when the event pointer is
  null or the event is cancelled; otherwise it answers false when the id is in the
  destroy queue and true when it is not.
\<close>

theorem IsExpired_destroy:
  assumes "m_uid ev = DESTROY"
  shows "IsExpired lp_IsExpired s ev =
           (m_eventImpl ev = None
            \<or> (\<exists>a. m_eventImpl ev = Some a \<and> IsCancelled s a)
            \<or> ev \<notin> set (m_destroyEvents s))"
  using assms by (auto simp: IsExpired_def IsExpired_loop_iff split: option.splits)

theorem IsExpired_destroy_witness:
  "m_uid \<lparr>m_eventImpl = Some 7, m_ts = 0, m_context = 0, m_uid = DESTROY\<rparr> = DESTROY
   \<and> \<not> IsExpired (\<lambda>lp i. True)
        \<lparr>m_destroyEvents = [\<lparr>m_eventImpl = Some 7, m_ts = 0, m_context = 0, m_uid = DESTROY\<rparr>],
         IsCancelled = (\<lambda>a. False), GetSystem = ()\<rparr>
        \<lparr>m_eventImpl = Some 7, m_ts = 0, m_context = 0, m_uid = DESTROY\<rparr>
   \<and> IsExpired (\<lambda>lp i. False)
        \<lparr>m_destroyEvents = [], IsCancelled = (\<lambda>a. False), GetSystem = ()\<rparr>
        \<lparr>m_eventImpl = Some 7, m_ts = 0, m_context = 0, m_uid = DESTROY\<rparr>"
  using
    IsExpired_destroy [of "\<lparr>m_eventImpl = Some 7, m_ts = 0, m_context = 0, m_uid = DESTROY\<rparr>"
      "\<lambda>lp i. True"
      "\<lparr>m_destroyEvents = [\<lparr>m_eventImpl = Some 7, m_ts = 0, m_context = 0, m_uid = DESTROY\<rparr>],
        IsCancelled = (\<lambda>a. False), GetSystem = ()\<rparr>"]
    IsExpired_destroy [of "\<lparr>m_eventImpl = Some 7, m_ts = 0, m_context = 0, m_uid = DESTROY\<rparr>"
      "\<lambda>lp i. False"
      "\<lparr>m_destroyEvents = [], IsCancelled = (\<lambda>a. False), GetSystem = ()\<rparr>"]
  by simp

text \<open>
  C9. For an id whose uid is \<open>DESTROY\<close>, \<open>Remove\<close> deletes the first entry of the destroy
  queue that equals the id: the entries before it and the entries after it stay, in
  their order, and nothing else of the state changes. The state is unchanged exactly
  when no entry equals the id, so removing an unknown id is a no-op. A second \<open>Remove\<close>
  of the same id changes nothing exactly when the queue held the id at most once; in
  particular it changes nothing for an unknown id.
\<close>

theorem Remove_destroy:
  assumes "m_uid ev = DESTROY"
  shows "m_destroyEvents (Remove lp_Remove s ev) = remove1 ev (m_destroyEvents s)
       \<and> m_destroyEvents (Remove lp_Remove s ev) =
           takeWhile (\<lambda>i. i \<noteq> ev) (m_destroyEvents s)
             @ drop 1 (dropWhile (\<lambda>i. i \<noteq> ev) (m_destroyEvents s))
       \<and> IsCancelled (Remove lp_Remove s ev) = IsCancelled s
       \<and> GetSystem (Remove lp_Remove s ev) = GetSystem s
       \<and> (Remove lp_Remove s ev = s) = (ev \<notin> set (m_destroyEvents s))
       \<and> (Remove lp_Remove (Remove lp_Remove s ev) ev = Remove lp_Remove s ev)
           = (count_list (m_destroyEvents s) ev \<le> 1)"
proof -
  let ?q = "m_destroyEvents s"
  have r: "Remove lp_Remove s ev = s\<lparr>m_destroyEvents := remove1 ev ?q\<rparr>"
    using assms by (simp add: Remove_def Remove_loop_remove1)
  have rr: "Remove lp_Remove (Remove lp_Remove s ev) ev
              = s\<lparr>m_destroyEvents := remove1 ev (remove1 ev ?q)\<rparr>"
    using assms by (simp add: Remove_def Remove_loop_remove1)
  have split: "remove1 ev ?q = takeWhile (\<lambda>i. i \<noteq> ev) ?q @ drop 1 (dropWhile (\<lambda>i. i \<noteq> ev) ?q)"
    by (rule remove1_takeWhile_dropWhile)
  have upd: "\<And>q'. (s\<lparr>m_destroyEvents := q'\<rparr> = s) = (q' = ?q)"
    by (cases s) auto
  have same: "(Remove lp_Remove s ev = s) = (ev \<notin> set ?q)"
    by (simp add: r upd remove1_same_iff)
  have "(s\<lparr>m_destroyEvents := remove1 ev (remove1 ev ?q)\<rparr> = s\<lparr>m_destroyEvents := remove1 ev ?q\<rparr>)
          = (remove1 ev (remove1 ev ?q) = remove1 ev ?q)"
    by (cases s) auto
  also have "\<dots> = (ev \<notin> set (remove1 ev ?q))"
    by (rule remove1_same_iff)
  also have "\<dots> = (count_list (remove1 ev ?q) ev = 0)"
    by (rule count_list_0_iff')
  also have "\<dots> = (count_list ?q ev \<le> 1)"
    by (auto simp: count_list_remove1)
  finally have chain: "(s\<lparr>m_destroyEvents := remove1 ev (remove1 ev ?q)\<rparr>
                          = s\<lparr>m_destroyEvents := remove1 ev ?q\<rparr>)
                        = (count_list ?q ev \<le> 1)" .
  have twice: "(Remove lp_Remove (Remove lp_Remove s ev) ev = Remove lp_Remove s ev)
          = (count_list ?q ev \<le> 1)"
    by (subst rr, subst r, rule chain)
  from split same twice show ?thesis
    by (simp add: r)
qed

theorem Remove_destroy_witness:
  "m_uid \<lparr>m_eventImpl = Some 7, m_ts = 0, m_context = 0, m_uid = DESTROY\<rparr> = DESTROY
   \<and> m_destroyEvents (Remove (\<lambda>lp i. lp)
        \<lparr>m_destroyEvents =
           [\<lparr>m_eventImpl = Some 3, m_ts = 0, m_context = 0, m_uid = DESTROY\<rparr>,
            \<lparr>m_eventImpl = Some 7, m_ts = 0, m_context = 0, m_uid = DESTROY\<rparr>,
            \<lparr>m_eventImpl = Some 5, m_ts = 0, m_context = 0, m_uid = DESTROY\<rparr>],
         IsCancelled = (\<lambda>a. False), GetSystem = ()\<rparr>
        \<lparr>m_eventImpl = Some 7, m_ts = 0, m_context = 0, m_uid = DESTROY\<rparr>)
     = [\<lparr>m_eventImpl = Some 3, m_ts = 0, m_context = 0, m_uid = DESTROY\<rparr>,
        \<lparr>m_eventImpl = Some 5, m_ts = 0, m_context = 0, m_uid = DESTROY\<rparr>]"
  using Remove_destroy [of "\<lparr>m_eventImpl = Some 7, m_ts = 0, m_context = 0, m_uid = DESTROY\<rparr>"
      "\<lambda>lp i. lp"
      "\<lparr>m_destroyEvents =
           [\<lparr>m_eventImpl = Some 3, m_ts = 0, m_context = 0, m_uid = DESTROY\<rparr>,
            \<lparr>m_eventImpl = Some 7, m_ts = 0, m_context = 0, m_uid = DESTROY\<rparr>,
            \<lparr>m_eventImpl = Some 5, m_ts = 0, m_context = 0, m_uid = DESTROY\<rparr>],
         IsCancelled = (\<lambda>a. False), GetSystem = ()\<rparr>"]
  by simp

text \<open>
  C10. \<open>GetDelayLeft\<close> is zero for every expired id and is the delay computed by the
  current logical process for every other id. For a uid of \<open>DESTROY\<close> the expired ids
  are those with a null pointer, a cancelled event or no entry in the destroy queue;
  for any other uid they are the ids the logical process reports as expired (executed
  or cancelled events).
\<close>

theorem GetDelayLeft_expired:
  "(IsExpired lp_IsExpired s ev \<longrightarrow> GetDelayLeft lp_IsExpired lp_GetDelayLeft s ev = 0)
   \<and> (\<not> IsExpired lp_IsExpired s ev \<longrightarrow>
        GetDelayLeft lp_IsExpired lp_GetDelayLeft s ev = lp_GetDelayLeft (GetSystem s) ev)
   \<and> (m_uid ev = DESTROY \<and>
        (m_eventImpl ev = None \<or> (\<exists>a. m_eventImpl ev = Some a \<and> IsCancelled s a)
         \<or> ev \<notin> set (m_destroyEvents s)) \<longrightarrow>
        GetDelayLeft lp_IsExpired lp_GetDelayLeft s ev = 0)
   \<and> (m_uid ev \<noteq> DESTROY \<and> lp_IsExpired (GetSystem s) ev \<longrightarrow>
        GetDelayLeft lp_IsExpired lp_GetDelayLeft s ev = 0)"
  by (auto simp: GetDelayLeft_def IsExpired_def IsExpired_loop_iff split: option.splits)

theorem GetDelayLeft_expired_witness:
  "IsExpired (\<lambda>lp i. False)
      \<lparr>m_destroyEvents = [], IsCancelled = (\<lambda>a. False), GetSystem = ()\<rparr>
      \<lparr>m_eventImpl = Some 7, m_ts = 0, m_context = 0, m_uid = DESTROY\<rparr>
   \<and> GetDelayLeft (\<lambda>lp i. False) (\<lambda>lp i. 42)
      \<lparr>m_destroyEvents = [], IsCancelled = (\<lambda>a. False), GetSystem = ()\<rparr>
      \<lparr>m_eventImpl = Some 7, m_ts = 0, m_context = 0, m_uid = DESTROY\<rparr> = 0
   \<and> \<not> IsExpired (\<lambda>lp i. False)
      \<lparr>m_destroyEvents = [], IsCancelled = (\<lambda>a. False), GetSystem = ()\<rparr>
      \<lparr>m_eventImpl = Some 7, m_ts = 5, m_context = 0, m_uid = 9\<rparr>
   \<and> GetDelayLeft (\<lambda>lp i. False) (\<lambda>lp i. 42)
      \<lparr>m_destroyEvents = [], IsCancelled = (\<lambda>a. False), GetSystem = ()\<rparr>
      \<lparr>m_eventImpl = Some 7, m_ts = 5, m_context = 0, m_uid = 9\<rparr> = 42
   \<and> GetDelayLeft (\<lambda>lp i. True) (\<lambda>lp i. 42)
      \<lparr>m_destroyEvents = [], IsCancelled = (\<lambda>a. False), GetSystem = ()\<rparr>
      \<lparr>m_eventImpl = Some 7, m_ts = 5, m_context = 0, m_uid = 9\<rparr> = 0"
  using
    GetDelayLeft_expired [of "\<lambda>lp i. False"
      "\<lparr>m_destroyEvents = [], IsCancelled = (\<lambda>a. False), GetSystem = ()\<rparr>"
      "\<lparr>m_eventImpl = Some 7, m_ts = 0, m_context = 0, m_uid = DESTROY\<rparr>" "\<lambda>lp i. 42"]
    GetDelayLeft_expired [of "\<lambda>lp i. False"
      "\<lparr>m_destroyEvents = [], IsCancelled = (\<lambda>a. False), GetSystem = ()\<rparr>"
      "\<lparr>m_eventImpl = Some 7, m_ts = 5, m_context = 0, m_uid = 9\<rparr>" "\<lambda>lp i. 42"]
    GetDelayLeft_expired [of "\<lambda>lp i. True"
      "\<lparr>m_destroyEvents = [], IsCancelled = (\<lambda>a. False), GetSystem = ()\<rparr>"
      "\<lparr>m_eventImpl = Some 7, m_ts = 5, m_context = 0, m_uid = 9\<rparr>" "\<lambda>lp i. 42"]
  by (simp add: IsExpired_def DESTROY_def)

subsection \<open>Destroy\<close>







subsection \<open>The Run loop\<close>


lemma map_nth_from_1: "map ((!) xs) [1..<length xs] = tl xs"
proof -
  have "tl xs = drop 1 (map ((!) xs) [0..<length xs])" by (simp add: map_nth drop_Suc)
  also have "\<dots> = map ((!) xs) (drop 1 [0..<length xs])" by (simp only: drop_map)
  also have "drop 1 [0..<length xs] = [1..<length xs]" by (simp only: drop_upt) simp
  finally show ?thesis by simp
qed

lemma reduce_step_msg: "reduce_step xs = reduce_msg \<circ> (!) xs"
  by (auto simp: reduce_step_def reduce_msg_def fun_eq_iff min_def)

lemma fold_reduce_msg:
  "fold reduce_msg ms r =
     \<lparr>r_smallestTime = fold min (map m_smallestTime ms) (r_smallestTime r),
      r_totRx = r_totRx r + sum_list (map m_rxCount ms),
      r_totTx = r_totTx r + sum_list (map m_txCount ms),
      r_globalFinished = (r_globalFinished r \<and> (\<forall>m \<in> set ms. m_isFinished m))\<rparr>"
  by (induction ms arbitrary: r) (auto simp: reduce_msg_def add.assoc)

lemma reduce_all_eq:
  assumes "xs \<noteq> []"
  shows "reduce_all xs =
     \<lparr>r_smallestTime = Min (set (map m_smallestTime xs)),
      r_totRx = sum_list (map m_rxCount xs),
      r_totTx = sum_list (map m_txCount xs),
      r_globalFinished = (\<forall>m \<in> set xs. m_isFinished m)\<rparr>"
proof -
  from assms obtain x ys where xs: "xs = x # ys" by (cases xs) auto
  have f: "fold (reduce_step xs) [1..<length xs] = fold reduce_msg ys"
    by (simp only: reduce_step_msg fold_map [symmetric] map_nth_from_1) (simp add: xs)
  have m: "fold min (map m_smallestTime ys) (m_smallestTime x) = Min (set (map m_smallestTime xs))"
    unfolding xs list.map by (rule Min.set_eq_fold [symmetric])
  have "reduce_all xs =
     fold reduce_msg ys
       \<lparr>r_smallestTime = m_smallestTime x, r_totRx = m_rxCount x, r_totTx = m_txCount x,
        r_globalFinished = m_isFinished x\<rparr>"
    unfolding reduce_all_def f by (simp add: xs)
  also have "\<dots> =
     \<lparr>r_smallestTime = Min (set (map m_smallestTime xs)),
      r_totRx = sum_list (map m_rxCount xs),
      r_totTx = sum_list (map m_txCount xs),
      r_globalFinished = (\<forall>m \<in> set xs. m_isFinished m)\<rparr>"
    unfolding fold_reduce_msg using m by (simp add: xs)
  finally show ?thesis .
qed


lemma unat_sum_list_word:
  "unat (sum_list ws :: uint32) = sum_list (map unat ws) mod 2 ^ 32"
  by (induction ws) (simp_all add: unat_word_ariths mod_add_right_eq)

text \<open>
  C3. In an iteration of the loop, with the gathered array holding one record per
  rank (this rank's own record at its index), the grant given to \<open>SetSmallestTime\<close> is
  the minimum of the ranks' smallest times, \<open>totRx\<close> and \<open>totTx\<close> are the sums of the
  ranks' receive and transmit counts (sums of \<open>uint32_t\<close> values, so modulo \<open>2 ^ 32\<close>),
  and the global finished flag is set exactly when every rank is finished and
  \<open>totRx\<close> equals \<open>totTx\<close>.
\<close>

theorem Run_iteration_reduction:
  assumes "myId < length peers"
  shows "Allgather M myId peers (ReceiveMessages M d) ! myId = lMsg M myId (ReceiveMessages M d)
    \<and> it_grant (snd (Run_iteration M myId peers d))
        = Min (set (map m_smallestTime (Allgather M myId peers (ReceiveMessages M d))))
    \<and> it_totRx (snd (Run_iteration M myId peers d))
        = sum_list (map m_rxCount (Allgather M myId peers (ReceiveMessages M d)))
    \<and> it_totTx (snd (Run_iteration M myId peers d))
        = sum_list (map m_txCount (Allgather M myId peers (ReceiveMessages M d)))
    \<and> unat (it_totRx (snd (Run_iteration M myId peers d)))
        = sum_list (map (\<lambda>m. unat (m_rxCount m)) (Allgather M myId peers (ReceiveMessages M d)))
            mod 2 ^ 32
    \<and> unat (it_totTx (snd (Run_iteration M myId peers d)))
        = sum_list (map (\<lambda>m. unat (m_txCount m)) (Allgather M myId peers (ReceiveMessages M d)))
            mod 2 ^ 32
    \<and> it_globalFinished (snd (Run_iteration M myId peers d))
        = ((\<forall>m \<in> set (Allgather M myId peers (ReceiveMessages M d)). m_isFinished m)
           \<and> it_totRx (snd (Run_iteration M myId peers d))
             = it_totTx (snd (Run_iteration M myId peers d)))
    \<and> fst (Run_iteration M myId peers d)
        = (if it_processed (snd (Run_iteration M myId peers d)) then ProcessOneRound M else id)
            (SetSmallestTime M
               (Min (set (map m_smallestTime (Allgather M myId peers (ReceiveMessages M d)))))
               (ReceiveMessages M d))"
proof -
  let ?all = "Allgather M myId peers (ReceiveMessages M d)"
  from assms have ne: "?all \<noteq> []"
    by (auto simp: Allgather_def)
  note r = reduce_all_eq [OF ne]
  have own: "?all ! myId = lMsg M myId (ReceiveMessages M d)"
    using assms by (simp add: Allgather_def)
  have g: "it_grant (snd (Run_iteration M myId peers d)) = Min (set (map m_smallestTime ?all))"
    by (simp add: Run_iteration_def Let_def r)
  have rx: "it_totRx (snd (Run_iteration M myId peers d)) = sum_list (map m_rxCount ?all)"
    by (simp add: Run_iteration_def Let_def r)
  have tx: "it_totTx (snd (Run_iteration M myId peers d)) = sum_list (map m_txCount ?all)"
    by (simp add: Run_iteration_def Let_def r)
  have urx: "unat (it_totRx (snd (Run_iteration M myId peers d)))
               = sum_list (map (\<lambda>m. unat (m_rxCount m)) ?all) mod 2 ^ 32"
    unfolding rx unat_sum_list_word by (simp add: comp_def)
  have utx: "unat (it_totTx (snd (Run_iteration M myId peers d)))
               = sum_list (map (\<lambda>m. unat (m_txCount m)) ?all) mod 2 ^ 32"
    unfolding tx unat_sum_list_word by (simp add: comp_def)
  have gf: "it_globalFinished (snd (Run_iteration M myId peers d))
        = ((\<forall>m \<in> set ?all. m_isFinished m)
           \<and> it_totRx (snd (Run_iteration M myId peers d))
             = it_totTx (snd (Run_iteration M myId peers d)))"
    by (simp add: Run_iteration_def Let_def r)
  have st: "fst (Run_iteration M myId peers d)
        = (if it_processed (snd (Run_iteration M myId peers d)) then ProcessOneRound M else id)
            (SetSmallestTime M (Min (set (map m_smallestTime ?all))) (ReceiveMessages M d))"
    by (simp add: Run_iteration_def Let_def r)
  from own g rx tx urx utx gf st show ?thesis by blast
qed

lemma Run_iteration_processed:
  "it_processed (snd (Run_iteration M myId peers d))
     = (it_totRx (snd (Run_iteration M myId peers d)) = it_totTx (snd (Run_iteration M myId peers d))
        \<and> \<not> it_localFinished (snd (Run_iteration M myId peers d)))"
  by (simp add: Run_iteration_def Let_def)

lemma Run_iteration_localFinished:
  "it_localFinished (snd (Run_iteration M myId peers d))
     = isFinished M (SetSmallestTime M (it_grant (snd (Run_iteration M myId peers d)))
                       (ReceiveMessages M d))"
  by (simp add: Run_iteration_def Let_def)

lemma Run_loop_invariant:
  assumes "\<And>peers d. P (snd (Run_iteration M myId peers d))"
  shows "\<forall>it \<in> set sofar. P it \<Longrightarrow> \<forall>it \<in> set (snd (Run_loop M myId inputs d sofar)). P it"
proof (induction inputs arbitrary: d sofar)
  case Nil
  then show ?case by simp
next
  case (Cons peers later)
  obtain d' it where step: "Run_iteration M myId peers d = (d', it)"
    by (cases "Run_iteration M myId peers d")
  from assms [of peers d] step have "P it" by simp
  with Cons.prems have ext: "\<forall>i \<in> set (sofar @ [it]). P i" by simp
  show ?case
  proof (cases "it_globalFinished it")
    case True
    with step ext show ?thesis by simp
  next
    case False
    with step Cons.IH [OF ext] show ?thesis by simp
  qed
qed

text \<open>
  C2. In every iteration of the loop, \<open>ProcessOneRound\<close> is called exactly when
  \<open>totRx = totTx\<close> and the local dispatcher is not finished; an iteration in which
  \<open>totRx\<close> differs from \<open>totTx\<close> executes no round.
\<close>

theorem Run_loop_round_iff:
  "(\<forall>it \<in> set (snd (Run_loop M myId inputs d [])).
      it_processed it = (it_totRx it = it_totTx it \<and> \<not> it_localFinished it)
      \<and> (it_totRx it \<noteq> it_totTx it \<longrightarrow> \<not> it_processed it))
   \<and> it_localFinished (snd (Run_iteration M myId peers d))
       = isFinished M (SetSmallestTime M (it_grant (snd (Run_iteration M myId peers d)))
                         (ReceiveMessages M d))
   \<and> fst (Run_iteration M myId peers d)
       = (if it_processed (snd (Run_iteration M myId peers d))
          then ProcessOneRound M
                 (SetSmallestTime M (it_grant (snd (Run_iteration M myId peers d)))
                    (ReceiveMessages M d))
          else SetSmallestTime M (it_grant (snd (Run_iteration M myId peers d)))
                 (ReceiveMessages M d))"
proof -
  have "\<forall>it \<in> set (snd (Run_loop M myId inputs d [])).
     it_processed it = (it_totRx it = it_totTx it \<and> \<not> it_localFinished it)"
    by (rule Run_loop_invariant) (simp_all add: Run_iteration_processed)
  then have loop: "\<forall>it \<in> set (snd (Run_loop M myId inputs d [])).
      it_processed it = (it_totRx it = it_totTx it \<and> \<not> it_localFinished it)
      \<and> (it_totRx it \<noteq> it_totTx it \<longrightarrow> \<not> it_processed it)"
    by blast
  have st: "fst (Run_iteration M myId peers d)
       = (if it_processed (snd (Run_iteration M myId peers d))
          then ProcessOneRound M
                 (SetSmallestTime M (it_grant (snd (Run_iteration M myId peers d)))
                    (ReceiveMessages M d))
          else SetSmallestTime M (it_grant (snd (Run_iteration M myId peers d)))
                 (ReceiveMessages M d))"
    by (simp add: Run_iteration_def Let_def)
  from loop Run_iteration_localFinished [of M myId peers d] st show ?thesis
    by blast
qed

text \<open>
  A run of rank 0 of two: the peer has sent one message (its \<open>txCount\<close> is 1) that
  reaches this rank at its second call of \<open>ReceiveMessages\<close>. The first iteration sees
  \<open>totRx = 0\<close> and \<open>totTx = 1\<close> and executes no round; the second sees \<open>1\<close> and \<open>1\<close> and
  executes one. The state counts the calls of \<open>ReceiveMessages\<close> and the rounds.
\<close>

theorem Run_loop_round_iff_witness:
  "map (\<lambda>it. (it_totRx it, it_totTx it, it_localFinished it, it_processed it))
     (snd (Run_loop
        \<lparr>ReceiveMessages = (\<lambda>(c, n). (Suc c, n)),
         GetRxCount = (\<lambda>(c, n). if 2 \<le> c then 1 else 0),
         GetTxCount = (\<lambda>(c, n). 0),
         isFinished = (\<lambda>(c, n). False),
         GetSmallestTime = (\<lambda>(c, n). 5),
         SetSmallestTime = (\<lambda>t (c, n). (c, n)),
         ProcessOneRound = (\<lambda>(c, n). (c, Suc n))\<rparr>
        0
        [[\<lparr>m_rxCount = 0, m_txCount = 0, m_myId = 0, m_isFinished = False, m_smallestTime = 0\<rparr>,
          \<lparr>m_rxCount = 0, m_txCount = 1, m_myId = 1, m_isFinished = True, m_smallestTime = 9\<rparr>],
         [\<lparr>m_rxCount = 0, m_txCount = 0, m_myId = 0, m_isFinished = False, m_smallestTime = 0\<rparr>,
          \<lparr>m_rxCount = 0, m_txCount = 1, m_myId = 1, m_isFinished = True, m_smallestTime = 9\<rparr>]]
        (0 :: nat, 0 :: nat) []))
   = [(0, 1, False, False), (1, 1, False, True)]"
  using Run_loop_round_iff [of
        "\<lparr>ReceiveMessages = (\<lambda>(c, n). (Suc c, n)),
         GetRxCount = (\<lambda>(c, n). if 2 \<le> c then 1 else 0),
         GetTxCount = (\<lambda>(c, n). 0),
         isFinished = (\<lambda>(c, n). False),
         GetSmallestTime = (\<lambda>(c, n). 5),
         SetSmallestTime = (\<lambda>t (c, n). (c, n)),
         ProcessOneRound = (\<lambda>(c, n). (c, Suc n))\<rparr>"
        0
        "[[\<lparr>m_rxCount = 0, m_txCount = 0, m_myId = 0, m_isFinished = False, m_smallestTime = 0\<rparr>,
          \<lparr>m_rxCount = 0, m_txCount = 1, m_myId = 1, m_isFinished = True, m_smallestTime = 9\<rparr>],
         [\<lparr>m_rxCount = 0, m_txCount = 0, m_myId = 0, m_isFinished = False, m_smallestTime = 0\<rparr>,
          \<lparr>m_rxCount = 0, m_txCount = 1, m_myId = 1, m_isFinished = True, m_smallestTime = 9\<rparr>]]"
        "(0 :: nat, 0 :: nat)"]
  by (simp add: Run_iteration_def Allgather_def lMsg_def reduce_all_def reduce_step_def Let_def)

theorem Run_iteration_reduction_witness:
  "(1 :: nat) < length
      [\<lparr>m_rxCount = 4, m_txCount = 1, m_myId = 0, m_isFinished = True, m_smallestTime = 30\<rparr>,
       \<lparr>m_rxCount = 0, m_txCount = 0, m_myId = 1, m_isFinished = False, m_smallestTime = 0\<rparr>,
       \<lparr>m_rxCount = 1, m_txCount = 3, m_myId = 2, m_isFinished = True, m_smallestTime = 20\<rparr>]
   \<and> snd (Run_iteration
        \<lparr>ReceiveMessages = (\<lambda>d. d), GetRxCount = (\<lambda>d. 2), GetTxCount = (\<lambda>d. 3),
         isFinished = (\<lambda>d. True), GetSmallestTime = (\<lambda>d. 25),
         SetSmallestTime = (\<lambda>t d. t), ProcessOneRound = (\<lambda>d. d + 1)\<rparr>
        1
        [\<lparr>m_rxCount = 4, m_txCount = 1, m_myId = 0, m_isFinished = True, m_smallestTime = 30\<rparr>,
         \<lparr>m_rxCount = 0, m_txCount = 0, m_myId = 1, m_isFinished = False, m_smallestTime = 0\<rparr>,
         \<lparr>m_rxCount = 1, m_txCount = 3, m_myId = 2, m_isFinished = True, m_smallestTime = 20\<rparr>]
        (0 :: int))
     = \<lparr>it_grant = 20, it_totRx = 7, it_totTx = 7, it_localFinished = True,
        it_processed = False, it_globalFinished = True\<rparr>"
  using Run_iteration_reduction [of 1
        "[\<lparr>m_rxCount = 4, m_txCount = 1, m_myId = 0, m_isFinished = True, m_smallestTime = 30\<rparr>,
         \<lparr>m_rxCount = 0, m_txCount = 0, m_myId = 1, m_isFinished = False, m_smallestTime = 0\<rparr>,
         \<lparr>m_rxCount = 1, m_txCount = 3, m_myId = 2, m_isFinished = True, m_smallestTime = 20\<rparr>]"
        "\<lparr>ReceiveMessages = (\<lambda>d. d), GetRxCount = (\<lambda>d. 2), GetTxCount = (\<lambda>d. 3),
         isFinished = (\<lambda>d. True), GetSmallestTime = (\<lambda>d. 25),
         SetSmallestTime = (\<lambda>t d. t), ProcessOneRound = (\<lambda>d. d + 1)\<rparr>"
        "0 :: int"]
  by (simp add: Run_iteration_def Allgather_def lMsg_def reduce_all_def reduce_step_def Let_def)

subsection \<open>Partition: lookahead and search\<close>


























text \<open>
  C1, at the chain of scenario S3: four nodes A, B, C and D of rank 0 (ids 0 to 3),
  point-to-point links A-B, B-C and C-D with delays 1, 10 and 1, and a lookahead of 5.
  The search gives every node a local id of its own, 1 to 4, and a count of 4: the
  nodes A and B, joined by a link that is not a cut, are not grouped. The test that
  guards the push reads the system id of the popped node, which was just overwritten
  with \<open>localSystemId << 16 | m_myId\<close> and so differs from \<open>m_myId\<close>; nothing is pushed.
\<close>

theorem Partition_chain_S3:
  "Partition_bfs 0 5
     [\<lparr>GetSystemId = 0, devices =
         [\<lparr>GetChannel = Some \<lparr>ch_id = 0, ch_Delay = 1, ch_nodes = [0, 1]\<rparr>, IsPointToPoint = True\<rparr>]\<rparr>,
      \<lparr>GetSystemId = 0, devices =
         [\<lparr>GetChannel = Some \<lparr>ch_id = 0, ch_Delay = 1, ch_nodes = [0, 1]\<rparr>, IsPointToPoint = True\<rparr>,
          \<lparr>GetChannel = Some \<lparr>ch_id = 1, ch_Delay = 10, ch_nodes = [1, 2]\<rparr>, IsPointToPoint = True\<rparr>]\<rparr>,
      \<lparr>GetSystemId = 0, devices =
         [\<lparr>GetChannel = Some \<lparr>ch_id = 1, ch_Delay = 10, ch_nodes = [1, 2]\<rparr>, IsPointToPoint = True\<rparr>,
          \<lparr>GetChannel = Some \<lparr>ch_id = 2, ch_Delay = 1, ch_nodes = [2, 3]\<rparr>, IsPointToPoint = True\<rparr>]\<rparr>,
      \<lparr>GetSystemId = 0, devices =
         [\<lparr>GetChannel = Some \<lparr>ch_id = 2, ch_Delay = 1, ch_nodes = [2, 3]\<rparr>, IsPointToPoint = True\<rparr>]\<rparr>]
   = Some (Inr (4,
     [\<lparr>GetSystemId = push_bit 16 1, devices =
         [\<lparr>GetChannel = Some \<lparr>ch_id = 0, ch_Delay = 1, ch_nodes = [0, 1]\<rparr>, IsPointToPoint = True\<rparr>]\<rparr>,
      \<lparr>GetSystemId = push_bit 16 2, devices =
         [\<lparr>GetChannel = Some \<lparr>ch_id = 0, ch_Delay = 1, ch_nodes = [0, 1]\<rparr>, IsPointToPoint = True\<rparr>,
          \<lparr>GetChannel = Some \<lparr>ch_id = 1, ch_Delay = 10, ch_nodes = [1, 2]\<rparr>, IsPointToPoint = True\<rparr>]\<rparr>,
      \<lparr>GetSystemId = push_bit 16 3, devices =
         [\<lparr>GetChannel = Some \<lparr>ch_id = 1, ch_Delay = 10, ch_nodes = [1, 2]\<rparr>, IsPointToPoint = True\<rparr>,
          \<lparr>GetChannel = Some \<lparr>ch_id = 2, ch_Delay = 1, ch_nodes = [2, 3]\<rparr>, IsPointToPoint = True\<rparr>]\<rparr>,
      \<lparr>GetSystemId = push_bit 16 4, devices =
         [\<lparr>GetChannel = Some \<lparr>ch_id = 2, ch_Delay = 1, ch_nodes = [2, 3]\<rparr>, IsPointToPoint = True\<rparr>]\<rparr>]))"
  by (simp add: Partition_bfs_def bfs.simps scan_device_def push_adjacent_def Let_def upt_rec)

text \<open>
  C4, at a topology of rank 0 with nodes A, B and C of rank 0 (ids 0 to 2) and a node R
  of rank 1 (id 3): point-to-point links A-B with delay 1, B-C with delay 3, and A-R,
  B-R and C-R with delay 10 each. \<open>Partition\<close> collects a delay for every device of a
  local node, so the links A-B and B-C are counted at both ends: it collects
  1, 1, 3, 3, 10, 10, 10 and sets the lookahead to 3. The delays of the five links
  are 1, 3, 10, 10, 10, with median 10.
\<close>

theorem Partition_lookahead_per_device:
  "Partition_lookahead 0
     [\<lparr>GetSystemId = 0, devices =
         [\<lparr>GetChannel = Some \<lparr>ch_id = 0, ch_Delay = 1, ch_nodes = [0, 1]\<rparr>, IsPointToPoint = True\<rparr>,
          \<lparr>GetChannel = Some \<lparr>ch_id = 2, ch_Delay = 10, ch_nodes = [0, 3]\<rparr>, IsPointToPoint = True\<rparr>]\<rparr>,
      \<lparr>GetSystemId = 0, devices =
         [\<lparr>GetChannel = Some \<lparr>ch_id = 0, ch_Delay = 1, ch_nodes = [0, 1]\<rparr>, IsPointToPoint = True\<rparr>,
          \<lparr>GetChannel = Some \<lparr>ch_id = 1, ch_Delay = 3, ch_nodes = [1, 2]\<rparr>, IsPointToPoint = True\<rparr>,
          \<lparr>GetChannel = Some \<lparr>ch_id = 3, ch_Delay = 10, ch_nodes = [1, 3]\<rparr>, IsPointToPoint = True\<rparr>]\<rparr>,
      \<lparr>GetSystemId = 0, devices =
         [\<lparr>GetChannel = Some \<lparr>ch_id = 1, ch_Delay = 3, ch_nodes = [1, 2]\<rparr>, IsPointToPoint = True\<rparr>,
          \<lparr>GetChannel = Some \<lparr>ch_id = 4, ch_Delay = 10, ch_nodes = [2, 3]\<rparr>, IsPointToPoint = True\<rparr>]\<rparr>,
      \<lparr>GetSystemId = 1, devices =
         [\<lparr>GetChannel = Some \<lparr>ch_id = 2, ch_Delay = 10, ch_nodes = [0, 3]\<rparr>, IsPointToPoint = True\<rparr>,
          \<lparr>GetChannel = Some \<lparr>ch_id = 3, ch_Delay = 10, ch_nodes = [1, 3]\<rparr>, IsPointToPoint = True\<rparr>,
          \<lparr>GetChannel = Some \<lparr>ch_id = 4, ch_Delay = 10, ch_nodes = [2, 3]\<rparr>, IsPointToPoint = True\<rparr>]\<rparr>]
     0 = 3
   \<and> median (spec_link_delays 0
     [\<lparr>GetSystemId = 0, devices =
         [\<lparr>GetChannel = Some \<lparr>ch_id = 0, ch_Delay = 1, ch_nodes = [0, 1]\<rparr>, IsPointToPoint = True\<rparr>,
          \<lparr>GetChannel = Some \<lparr>ch_id = 2, ch_Delay = 10, ch_nodes = [0, 3]\<rparr>, IsPointToPoint = True\<rparr>]\<rparr>,
      \<lparr>GetSystemId = 0, devices =
         [\<lparr>GetChannel = Some \<lparr>ch_id = 0, ch_Delay = 1, ch_nodes = [0, 1]\<rparr>, IsPointToPoint = True\<rparr>,
          \<lparr>GetChannel = Some \<lparr>ch_id = 1, ch_Delay = 3, ch_nodes = [1, 2]\<rparr>, IsPointToPoint = True\<rparr>,
          \<lparr>GetChannel = Some \<lparr>ch_id = 3, ch_Delay = 10, ch_nodes = [1, 3]\<rparr>, IsPointToPoint = True\<rparr>]\<rparr>,
      \<lparr>GetSystemId = 0, devices =
         [\<lparr>GetChannel = Some \<lparr>ch_id = 1, ch_Delay = 3, ch_nodes = [1, 2]\<rparr>, IsPointToPoint = True\<rparr>,
          \<lparr>GetChannel = Some \<lparr>ch_id = 4, ch_Delay = 10, ch_nodes = [2, 3]\<rparr>, IsPointToPoint = True\<rparr>]\<rparr>,
      \<lparr>GetSystemId = 1, devices =
         [\<lparr>GetChannel = Some \<lparr>ch_id = 2, ch_Delay = 10, ch_nodes = [0, 3]\<rparr>, IsPointToPoint = True\<rparr>,
          \<lparr>GetChannel = Some \<lparr>ch_id = 3, ch_Delay = 10, ch_nodes = [1, 3]\<rparr>, IsPointToPoint = True\<rparr>,
          \<lparr>GetChannel = Some \<lparr>ch_id = 4, ch_Delay = 10, ch_nodes = [2, 3]\<rparr>, IsPointToPoint = True\<rparr>]\<rparr>])
     = 10"
  by (simp add: Partition_lookahead_def median_def collect_delays_def device_delay_def
        spec_link_delays_def device_link_def)

subsection \<open>Partition: the migration of events\<close>


lemma RemoveNext_in:
  "sch \<noteq> [] \<Longrightarrow> fst (RemoveNext sch) \<in> set sch"
  by (simp add: RemoveNext_def Let_def arg_min_list_in)

lemma RemoveNext_mset:
  "sch \<noteq> [] \<Longrightarrow> add_mset (fst (RemoveNext sch)) (mset (snd (RemoveNext sch))) = mset sch"
  by (simp add: RemoveNext_def Let_def arg_min_list_in)

lemma RemoveNext_rest: "set (snd (RemoveNext sch)) \<subseteq> set sch"
  by (simp add: RemoveNext_def Let_def set_remove1_subset)

lemma RemoveNext_least:
  assumes "sch \<noteq> []" and "x \<in> set sch"
  shows "key (fst (RemoveNext sch)) \<le> key x"
proof -
  have "key (arg_min_list key sch) = Min (key ` set sch)"
    using assms(1) by (rule f_arg_min_list_f)
  also have "\<dots> \<le> key x" using assms(2) by simp
  finally show ?thesis by (simp add: RemoveNext_def Let_def)
qed

lemma transfer_empty: "IsEmpty old \<Longrightarrow> transfer old new = new"
  by (subst transfer.simps) simp

lemma transfer_step:
  "\<not> IsEmpty old \<Longrightarrow> RemoveNext old = (ev, rest) \<Longrightarrow>
   transfer old new = transfer rest (Insert ev new)"
  by (subst transfer.simps) simp

lemma drain_empty: "IsEmpty sch \<Longrightarrow> drain sch = []"
  by (subst drain.simps) simp

lemma drain_step:
  "\<not> IsEmpty sch \<Longrightarrow> RemoveNext sch = (ev, rest) \<Longrightarrow> drain sch = ev # drain rest"
  by (subst drain.simps) simp

lemma migrate_loop_empty: "IsEmpty sch \<Longrightarrow> migrate_loop GetSize nodes sch calls = Inr calls"
  by (subst migrate_loop.simps) simp

lemma migrate_loop_step:
  "\<not> IsEmpty sch \<Longrightarrow> RemoveNext sch = (ev, rest) \<Longrightarrow>
   migrate_event GetSize nodes ev = Inr c \<Longrightarrow>
   migrate_loop GetSize nodes sch calls = migrate_loop GetSize nodes rest (calls @ [c])"
  by (subst migrate_loop.simps) simp

lemma mset_transfer: "mset (transfer old new) = mset old + mset new"
proof (induction old new rule: transfer.induct)
  case (1 oldEvents eventsToBeTransferred)
  show ?case
  proof (cases "IsEmpty oldEvents")
    case True
    then show ?thesis by (simp add: transfer_empty) (simp add: IsEmpty_def)
  next
    case False
    then have ne: "oldEvents \<noteq> []" by (simp add: IsEmpty_def)
    obtain ev rest where r: "RemoveNext oldEvents = (ev, rest)"
      by (cases "RemoveNext oldEvents")
    from "1.IH" [OF False r [symmetric]]
    have "mset (transfer rest (Insert ev eventsToBeTransferred))
            = mset rest + mset (Insert ev eventsToBeTransferred)" .
    moreover have "add_mset ev (mset rest) = mset oldEvents"
      using RemoveNext_mset [OF ne] r by simp
    ultimately show ?thesis
      by (simp add: transfer_step [OF False r] Insert_def)
  qed
qed

lemma mset_drain: "mset (drain sch) = mset sch"
proof (induction sch rule: drain.induct)
  case (1 sch)
  show ?case
  proof (cases "IsEmpty sch")
    case True
    then show ?thesis by (simp add: drain_empty) (simp add: IsEmpty_def)
  next
    case False
    then have ne: "sch \<noteq> []" by (simp add: IsEmpty_def)
    obtain ev rest where r: "RemoveNext sch = (ev, rest)"
      by (cases "RemoveNext sch")
    from "1.IH" [OF False r [symmetric]] have "mset (drain rest) = mset rest" .
    moreover have "add_mset ev (mset rest) = mset sch"
      using RemoveNext_mset [OF ne] r by simp
    ultimately show ?thesis
      by (simp add: drain_step [OF False r])
  qed
qed

lemma sorted_drain: "sorted (map key (drain sch))"
proof (induction sch rule: drain.induct)
  case (1 sch)
  show ?case
  proof (cases "IsEmpty sch")
    case True
    then show ?thesis by (simp add: drain_empty)
  next
    case False
    then have ne: "sch \<noteq> []" by (simp add: IsEmpty_def)
    obtain ev rest where r: "RemoveNext sch = (ev, rest)"
      by (cases "RemoveNext sch")
    from "1.IH" [OF False r [symmetric]] have s: "sorted (map key (drain rest))" .
    have sub: "set (drain rest) \<subseteq> set sch"
    proof -
      have "set (drain rest) = set rest"
        using mset_drain [of rest] by (rule mset_eq_setD)
      also have "set rest \<subseteq> set sch"
        using RemoveNext_rest [of sch] r by simp
      finally show ?thesis .
    qed
    have "\<forall>x \<in> set (drain rest). key ev \<le> key x"
      using RemoveNext_least [OF ne] sub r by auto
    with s show ?thesis
      by (simp add: drain_step [OF False r])
  qed
qed

lemma migrate_loop_drain:
  "\<forall>ev \<in> set sch. migrate_event GetSize nodes ev = Inr (f ev) \<Longrightarrow>
   migrate_loop GetSize nodes sch calls = Inr (calls @ map f (drain sch))"
proof (induction GetSize nodes sch calls rule: migrate_loop.induct)
  case (1 GetSize nodes sch calls)
  show ?case
  proof (cases "IsEmpty sch")
    case True
    then show ?thesis by (simp add: migrate_loop_empty drain_empty)
  next
    case False
    then have ne: "sch \<noteq> []" by (simp add: IsEmpty_def)
    obtain ev rest where r: "RemoveNext sch = (ev, rest)"
      by (cases "RemoveNext sch")
    have evin: "ev \<in> set sch" using RemoveNext_in [OF ne] r by simp
    with "1.prems" have c: "migrate_event GetSize nodes ev = Inr (f ev)" by simp
    have "set rest \<subseteq> set sch"
      using RemoveNext_rest [of sch] r by simp
    with "1.prems" have "\<forall>ev \<in> set rest. migrate_event GetSize nodes ev = Inr (f ev)" by blast
    from "1.IH" [OF False r [symmetric] c this]
    have "migrate_loop GetSize nodes rest (calls @ [f ev])
            = Inr ((calls @ [f ev]) @ map f (drain rest))" .
    then show ?thesis
      by (simp add: migrate_loop_step [OF False r c] drain_step [OF False r])
  qed
qed


lemma migrate_event_valid:
  assumes "key_context ev \<noteq> NO_CONTEXT \<longrightarrow> unat (key_context ev) < length nodes"
  shows "migrate_event GetSize nodes ev =
     Inr (if key_ts ev = 0 then
            Call_InvokeNow
              (LP (if key_context ev = NO_CONTEXT then 0
                   else drop_bit 16 (GetSystemId (nodes ! unat (key_context ev))))) ev
          else if key_context ev = NO_CONTEXT then
            Call_Schedule CurrentLP (TimeStep (key_ts ev)) (impl ev)
          else
            Call_ScheduleWithContext CurrentLP
              (if GetSize = 1 then CurrentLP
               else LP (drop_bit 16 (GetSystemId (nodes ! unat (key_context ev)))))
              (key_context ev) (TimeStep (key_ts ev)) (impl ev))"
  using assms
  by (simp add: migrate_event_def ScheduleWithContext_def Schedule_def GetNode_def)

text \<open>
  C6. Provided every context other than \<open>NO_CONTEXT\<close> is the id of a node, the migration
  handles every event of the old scheduler once, in the order of their keys
  (timestamp, then uid). An event with timestamp 0 is invoked at once, by
  \<open>InvokeNow\<close> on logical process 0 when its context is \<open>NO_CONTEXT\<close> and on the logical
  process named by the high 16 bits of the context node's system id otherwise. An
  event with another timestamp and context \<open>NO_CONTEXT\<close> is scheduled on the current
  logical process with its timestamp as the delay. Any other event goes through
  \<open>ScheduleWithContext\<close> with its timestamp as the delay, to the logical process named by
  the context node's system id (to the current one when there is a single logical
  process).
\<close>

theorem Partition_migrate_events:
  assumes "\<forall>ev \<in> set oldEvents.
             key_context ev \<noteq> NO_CONTEXT \<longrightarrow> unat (key_context ev) < length nodes"
  shows "\<exists>drained.
           mset drained = mset oldEvents
         \<and> sorted (map key drained)
         \<and> Partition_migrate GetSize nodes oldEvents =
             Inr (map (\<lambda>ev.
                    if key_ts ev = 0 then
                      Call_InvokeNow
                        (LP (if key_context ev = NO_CONTEXT then 0
                             else drop_bit 16 (GetSystemId (nodes ! unat (key_context ev))))) ev
                    else if key_context ev = NO_CONTEXT then
                      Call_Schedule CurrentLP (TimeStep (key_ts ev)) (impl ev)
                    else
                      Call_ScheduleWithContext CurrentLP
                        (if GetSize = 1 then CurrentLP
                         else LP (drop_bit 16 (GetSystemId (nodes ! unat (key_context ev)))))
                        (key_context ev) (TimeStep (key_ts ev)) (impl ev))
                  drained)"
proof -
  let ?sch = "transfer oldEvents []"
  have m: "mset ?sch = mset oldEvents" by (simp add: mset_transfer)
  then have "set ?sch = set oldEvents" by (rule mset_eq_setD)
  with assms have valid: "\<forall>ev \<in> set ?sch.
      key_context ev \<noteq> NO_CONTEXT \<longrightarrow> unat (key_context ev) < length nodes" by simp
  have "mset (drain ?sch) = mset oldEvents" by (simp add: mset_drain m)
  moreover have "sorted (map key (drain ?sch))" by (rule sorted_drain)
  moreover have "Partition_migrate GetSize nodes oldEvents =
             Inr (map (\<lambda>ev.
                    if key_ts ev = 0 then
                      Call_InvokeNow
                        (LP (if key_context ev = NO_CONTEXT then 0
                             else drop_bit 16 (GetSystemId (nodes ! unat (key_context ev))))) ev
                    else if key_context ev = NO_CONTEXT then
                      Call_Schedule CurrentLP (TimeStep (key_ts ev)) (impl ev)
                    else
                      Call_ScheduleWithContext CurrentLP
                        (if GetSize = 1 then CurrentLP
                         else LP (drop_bit 16 (GetSystemId (nodes ! unat (key_context ev)))))
                        (key_context ev) (TimeStep (key_ts ev)) (impl ev))
                  (drain ?sch))"
    unfolding Partition_migrate_def
    using migrate_loop_drain [of ?sch GetSize nodes _ "[]"] valid migrate_event_valid
    by simp
  ultimately show ?thesis by blast
qed

text \<open>
  Four events, given out of order, on two nodes with local ids 1 and 2 and three
  logical processes: the two events of timestamp 0 are invoked first, in the order of
  their uids, then the event of timestamp 3 is sent to the logical process of node 0
  and the event of timestamp 5 without context is scheduled on the current one.
\<close>

theorem Partition_migrate_events_witness:
  "Partition_migrate 3
     [\<lparr>GetSystemId = push_bit 16 1, devices = []\<rparr>, \<lparr>GetSystemId = push_bit 16 2, devices = []\<rparr>]
     [\<lparr>impl = 10, key_ts = 5, key_uid = 0, key_context = NO_CONTEXT\<rparr>,
      \<lparr>impl = 11, key_ts = 0, key_uid = 2, key_context = 1\<rparr>,
      \<lparr>impl = 12, key_ts = 3, key_uid = 3, key_context = 0\<rparr>,
      \<lparr>impl = 13, key_ts = 0, key_uid = 1, key_context = NO_CONTEXT\<rparr>]
   = Inr [Call_InvokeNow (LP 0) \<lparr>impl = 13, key_ts = 0, key_uid = 1, key_context = NO_CONTEXT\<rparr>,
          Call_InvokeNow (LP 2) \<lparr>impl = 11, key_ts = 0, key_uid = 2, key_context = 1\<rparr>,
          Call_ScheduleWithContext CurrentLP (LP 1) 0 3 12,
          Call_Schedule CurrentLP 5 10]"
proof -
  have valid: "\<forall>ev \<in> set [\<lparr>impl = 10, key_ts = 5, key_uid = 0, key_context = NO_CONTEXT\<rparr>,
                  \<lparr>impl = 11, key_ts = 0, key_uid = 2, key_context = 1\<rparr>,
                  \<lparr>impl = 12, key_ts = 3, key_uid = 3, key_context = 0\<rparr>,
                  \<lparr>impl = 13, key_ts = 0, key_uid = 1, key_context = NO_CONTEXT\<rparr>].
      key_context ev \<noteq> NO_CONTEXT \<longrightarrow>
      unat (key_context ev)
        < length [\<lparr>GetSystemId = push_bit 16 1, devices = []\<rparr>,
                  \<lparr>GetSystemId = push_bit 16 2, devices = []\<rparr>]"
    by simp
  from Partition_migrate_events [OF valid, of 3] obtain drained where
    d: "mset drained = mset [\<lparr>impl = 10, key_ts = 5, key_uid = 0, key_context = NO_CONTEXT\<rparr>,
                  \<lparr>impl = 11, key_ts = 0, key_uid = 2, key_context = 1\<rparr>,
                  \<lparr>impl = 12, key_ts = 3, key_uid = 3, key_context = 0\<rparr>,
                  \<lparr>impl = 13, key_ts = 0, key_uid = 1, key_context = NO_CONTEXT\<rparr>]"
    by blast
  have run: "Partition_migrate 3
     [\<lparr>GetSystemId = push_bit 16 1, devices = []\<rparr>, \<lparr>GetSystemId = push_bit 16 2, devices = []\<rparr>]
     [\<lparr>impl = 10, key_ts = 5, key_uid = 0, key_context = NO_CONTEXT\<rparr>,
      \<lparr>impl = 11, key_ts = 0, key_uid = 2, key_context = 1\<rparr>,
      \<lparr>impl = 12, key_ts = 3, key_uid = 3, key_context = 0\<rparr>,
      \<lparr>impl = 13, key_ts = 0, key_uid = 1, key_context = NO_CONTEXT\<rparr>]
   = Inr [Call_InvokeNow (LP 0) \<lparr>impl = 13, key_ts = 0, key_uid = 1, key_context = NO_CONTEXT\<rparr>,
          Call_InvokeNow (LP 2) \<lparr>impl = 11, key_ts = 0, key_uid = 2, key_context = 1\<rparr>,
          Call_ScheduleWithContext CurrentLP (LP 1) 0 3 12,
          Call_Schedule CurrentLP 5 10]"
    by code_simp
  from d run show ?thesis by blast
qed

end
